theory Spec2Isabelle
  imports Main "HOL-Library.Sublist"
begin

section \<open>Python values, exceptions and effects\<close>

text \<open>
  The script \<^verbatim>\<open>day1/run/sim.py\<close> builds command lines from constants, runs them
  as child processes, prints to standard output and touches two directories. Its
  functions are modelled as state transformers that either return normally
  (\<open>Inr\<close>) or raise (\<open>Inl\<close>); the state reached is kept in both cases, because
  what was printed and run before a raise stays printed and run.
\<close>

type_synonym path = string

type_synonym argv = "string list"

datatype exn =
    FileNotFoundError path
  | FileExistsError path
  | NotADirectoryError path
  | PermissionError path
  | CalledProcessError int argv
  | SystemExit int

type_synonym ('s, 'a) prog = "'s \<Rightarrow> (exn + 'a) \<times> 's"

definition return :: "'a \<Rightarrow> ('s, 'a) prog" where
  "return x s = (Inr x, s)"

definition raise :: "exn \<Rightarrow> ('s, 'a) prog" where
  "raise e s = (Inl e, s)"

text \<open>Statement sequencing: the second statement runs only if the first returned.\<close>

definition and_then :: "('s, 'a) prog \<Rightarrow> ('s, 'b) prog \<Rightarrow> ('s, 'b) prog" where
  "and_then f g s = (case f s of (Inl e, s') \<Rightarrow> (Inl e, s') | (Inr _, s') \<Rightarrow> g s')"

text \<open>\<^verbatim>\<open>sep.join(xs)\<close> of Python.\<close>

fun str_join :: "string \<Rightarrow> string list \<Rightarrow> string" where
  "str_join sep [] = []"
| "str_join sep [x] = x"
| "str_join sep (x # y # ys) = x @ sep @ str_join sep (y # ys)"

section \<open>The environment: file system and external tools\<close>

text \<open>
  A file-system state maps a path, as the script spells it, to the kind of entry found
  there. \<open>denied\<close> lists the paths at which the operating system refuses to create or
  to remove an entry (a permission error). The script names entries by fixed relative
  POSIX paths only, so a path is identified with its spelling.
\<close>

datatype node = File | Dir

record filesystem =
  nodes :: "path \<Rightarrow> node option"
  denied :: "path list"

text \<open>\<^verbatim>\<open>os.path.exists\<close>.\<close>

definition os_path_exists :: "filesystem \<Rightarrow> path \<Rightarrow> bool" where
  "os_path_exists s p = (nodes s p \<noteq> None)"

text \<open>\<^verbatim>\<open>os.path.join(a, b)\<close> of \<^verbatim>\<open>posixpath\<close>, for two components.\<close>

definition os_path_join :: "path \<Rightarrow> path \<Rightarrow> path" where
  "os_path_join a b =
     (if b \<noteq> [] \<and> hd b = CHR ''/'' then b
      else if a = [] \<or> last a = CHR ''/'' then a @ b
      else a @ ''/'' @ b)"

text \<open>
  \<^verbatim>\<open>os.path.split\<close> of \<^verbatim>\<open>posixpath\<close>: the text up to and including the last slash is
  the head, the rest the tail; trailing slashes are stripped from a head that is not
  made of slashes only.
\<close>

definition os_path_split :: "path \<Rightarrow> path \<times> path" where
  "os_path_split p =
     (let i = length (dropWhile (\<lambda>c. c \<noteq> CHR ''/'') (rev p));
          head = take i p;
          tail = drop i p
      in (if head \<noteq> [] \<and> head \<noteq> replicate (length head) (CHR ''/'')
          then rev (dropWhile (\<lambda>c. c = CHR ''/'') (rev head)) else head,
          tail))"

text \<open>\<open>below d q\<close>: the path \<open>q\<close> names something inside the directory \<open>d\<close>.\<close>

definition below :: "path \<Rightarrow> path \<Rightarrow> bool" where
  "below d q = prefix (d @ ''/'') q"

text \<open>
  \<^verbatim>\<open>os.mkdir\<close>: the path must be free, its parent (when the path has one) must be an
  existing directory, and the operating system must allow the creation.
\<close>

definition os_mkdir :: "path \<Rightarrow> (filesystem, unit) prog" where
  "os_mkdir p s =
     (let parent = fst (os_path_split p) in
      if p = [] then (Inl (FileNotFoundError p), s)
      else if os_path_exists s p then (Inl (FileExistsError p), s)
      else if parent \<noteq> [] \<and> nodes s parent = None then (Inl (FileNotFoundError p), s)
      else if parent \<noteq> [] \<and> nodes s parent = Some File then (Inl (NotADirectoryError p), s)
      else if p \<in> set (denied s) then (Inl (PermissionError p), s)
      else (Inr (), s\<lparr>nodes := (nodes s)(p \<mapsto> Dir)\<rparr>))"

lemma os_path_split_length:
  "os_path_split p = (h, t) \<Longrightarrow> length h + length t \<le> length p"
proof -
  assume a: "os_path_split p = (h, t)"
  define i where "i = length (dropWhile (\<lambda>c. c \<noteq> CHR ''/'') (rev p))"
  have i: "i \<le> length p"
    unfolding i_def using length_dropWhile_le [of "\<lambda>c. c \<noteq> CHR ''/''" "rev p"] by simp
  have t: "t = drop i p"
    using a by (simp add: os_path_split_def Let_def i_def)
  have "length h \<le> length (take i p)"
    using a length_dropWhile_le [of "\<lambda>c. c = CHR ''/''" "rev (take i p)"]
    by (auto simp: os_path_split_def Let_def i_def split: if_splits)
  with i t show ?thesis by simp
qed

text \<open>
  \<^verbatim>\<open>os.makedirs(name)\<close> with \<^verbatim>\<open>exist_ok=False\<close>: create the missing parents first
  (a parent that turns out to exist is fine), then the leaf with \<^verbatim>\<open>os.mkdir\<close>, whose
  errors propagate.
\<close>

function os_makedirs :: "path \<Rightarrow> (filesystem, unit) prog" where
  "os_makedirs name s =
     (case os_path_split name of (head0, tail0) \<Rightarrow>
      (case (if tail0 = [] then os_path_split head0 else (head0, tail0)) of (head, tail) \<Rightarrow>
         if head \<noteq> [] \<and> tail \<noteq> [] \<and> \<not> os_path_exists s head then
           (case os_makedirs head s of
              (Inl (FileExistsError x), s1) \<Rightarrow>
                 if tail = ''.'' then (Inr (), s1) else os_mkdir name s1
            | (Inl e, s1) \<Rightarrow> (Inl e, s1)
            | (Inr u, s1) \<Rightarrow>
                 if tail = ''.'' then (Inr (), s1) else os_mkdir name s1)
         else os_mkdir name s))"
  by pat_completeness auto
termination
proof (relation "measure (\<lambda>(name, s). length name)")
  show "wf (measure (\<lambda>(name, s). length name))" by simp
next
  fix name :: path and s :: filesystem and head0 tail0 head tail
  assume sp: "(head0, tail0) = os_path_split name"
    and ht: "(head, tail) = (if tail0 = [] then os_path_split head0 else (head0, tail0))"
    and c: "head \<noteq> [] \<and> tail \<noteq> [] \<and> \<not> os_path_exists s head"
  have l0: "length head0 + length tail0 \<le> length name"
    using sp os_path_split_length [of name head0 tail0] by simp
  have "length head < length name"
  proof (cases "tail0 = []")
    case True
    with ht have "os_path_split head0 = (head, tail)" by simp
    from os_path_split_length [OF this] c l0 show ?thesis by (cases tail) auto
  next
    case False
    with ht have "head = head0" "tail = tail0" by simp_all
    with l0 False show ?thesis by (cases tail0) auto
  qed
  then show "((head, s), (name, s)) \<in> measure (\<lambda>(name, s). length name)" by simp
qed

declare os_makedirs.simps [simp del]

text \<open>
  \<^verbatim>\<open>shutil.rmtree(path, ignore_errors=True)\<close>. Every failure inside the traversal
  goes to a handler that does nothing, so the call always returns. When \<open>path\<close> is
  missing or is not a directory nothing is removed. Otherwise each entry of the tree is
  removed unless the operating system refuses: \<open>held s q\<close> says that \<open>q\<close> stays,
  because \<open>q\<close> itself or an entry inside it is an existing entry that cannot be
  removed (a directory that is not empty cannot be removed either). The removal of
  a directory \<open>p\<close> meets an error exactly when \<open>held s p\<close>.
\<close>

definition held :: "filesystem \<Rightarrow> path \<Rightarrow> bool" where
  "held s q = list_ex (\<lambda>r. nodes s r \<noteq> None \<and> (r = q \<or> below q r)) (denied s)"

definition shutil_rmtree_ignore_errors :: "path \<Rightarrow> (filesystem, unit) prog" where
  "shutil_rmtree_ignore_errors p s =
     (case nodes s p of
        Some Dir \<Rightarrow>
          (Inr (), s\<lparr>nodes := (\<lambda>q. if (q = p \<or> below p q) \<and> \<not> held s q then None
                                     else nodes s q)\<rparr>)
      | _ \<Rightarrow> (Inr (), s))"

text \<open>
  The external tools (\<^verbatim>\<open>vlib\<close>, \<^verbatim>\<open>vlog\<close>, \<^verbatim>\<open>vsim\<close>) are not part of the script. They
  are a parameter: a child process given its argument vector and the file system either
  cannot be started, or exits with a status and leaves a file system behind.
\<close>

datatype outcome = Exited int filesystem | NotStarted exn

type_synonym tools = "argv \<Rightarrow> filesystem \<Rightarrow> outcome"

text \<open>
  The state of a run: the file system, what has been printed (one entry for each call of
  \<^verbatim>\<open>print\<close>), and the child processes asked for so far, each with its exit status
  (\<open>None\<close> when it could not be started).
\<close>

record world =
  fsys :: filesystem
  stdout :: "string list"
  calls :: "(argv \<times> int option) list"

definition on_fs :: "(filesystem, 'a) prog \<Rightarrow> (world, 'a) prog" where
  "on_fs f w = (case f (fsys w) of (r, s) \<Rightarrow> (r, w\<lparr>fsys := s\<rparr>))"

text \<open>\<^verbatim>\<open>print(a, b, ...)\<close>: the arguments separated by one space.\<close>

definition py_print :: "string list \<Rightarrow> (world, unit) prog" where
  "py_print args w = (Inr (), w\<lparr>stdout := stdout w @ [str_join '' '' args]\<rparr>)"

text \<open>
  \<^verbatim>\<open>subprocess.check_call(cmd)\<close>: run the child, wait for it, and raise
  \<^verbatim>\<open>CalledProcessError\<close> when its exit status is not zero.
\<close>

definition check_call :: "tools \<Rightarrow> argv \<Rightarrow> (world, unit) prog" where
  "check_call tools cmd w =
     (case tools cmd (fsys w) of
        NotStarted e \<Rightarrow> (Inl e, w\<lparr>calls := calls w @ [(cmd, None)]\<rparr>)
      | Exited rc s \<Rightarrow>
          (if rc \<noteq> 0 then Inl (CalledProcessError rc cmd) else Inr (),
           w\<lparr>fsys := s, calls := calls w @ [(cmd, Some rc)]\<rparr>))"

section \<open>The script\<close>

subsection \<open>Configuration variables\<close>

definition SRC_DIR :: path where
  "SRC_DIR = ''../src''"

definition SIM_DIR :: path where
  "SIM_DIR = ''../sim''"

definition VERILOG_FILES :: "path list" where
  "VERILOG_FILES = [os_path_join SRC_DIR ''d1_design.v'', os_path_join SRC_DIR ''d1_test.v'']"

definition TOP_MODULE :: string where
  "TOP_MODULE = ''d1_test''"

definition VSIM_OPTIONS :: "string list" where
  "VSIM_OPTIONS = [''-vopt'', ''-voptargs=+acc'']"

subsection \<open>Utility functions\<close>

definition ensure_dirs :: "(world, unit) prog" where
  "ensure_dirs =
     and_then
       (\<lambda>w. if \<not> os_path_exists (fsys w) ''../quartus''
            then on_fs (os_makedirs ''../quartus'') w else return () w)
       (\<lambda>w. if \<not> os_path_exists (fsys w) SIM_DIR
            then on_fs (os_makedirs SIM_DIR) w else return () w)"

definition run_command :: "tools \<Rightarrow> argv \<Rightarrow> (world, unit) prog" where
  "run_command tools cmd =
     and_then (py_print [''Running:'', str_join '' '' cmd]) (check_call tools cmd)"

subsection \<open>Simulation commands\<close>

definition simulate :: "tools \<Rightarrow> (world, unit) prog" where
  "simulate tools =
     and_then ensure_dirs
    (and_then (run_command tools [''vlib'', SIM_DIR])
    (and_then (run_command tools ([''vlog'', ''-work'', SIM_DIR] @ VERILOG_FILES))
              (run_command tools
                 ([''vsim''] @ VSIM_OPTIONS @
                  [''-c'',
                   ''-do'', ''log -r /* ; run -all; quit'',
                   TOP_MODULE,
                   ''-work'', SIM_DIR,
                   ''-l'', os_path_join SIM_DIR ''simulation.log'',
                   ''-wlf'', os_path_join SIM_DIR ''waveform.wlf'']))))"

definition simulate_gui :: "tools \<Rightarrow> (world, unit) prog" where
  "simulate_gui tools =
     and_then ensure_dirs
    (and_then (run_command tools [''vlib'', SIM_DIR])
    (and_then (run_command tools ([''vlog'', ''-work'', SIM_DIR] @ VERILOG_FILES))
              (run_command tools
                 ([''vsim''] @ VSIM_OPTIONS @
                  [''-do'', ''log -r /*'',
                   TOP_MODULE,
                   ''-work'', SIM_DIR]))))"

definition view_wave :: "tools \<Rightarrow> (world, unit) prog" where
  "view_wave tools =
     run_command tools [''vsim'', ''-view'', os_path_join SIM_DIR ''waveform.wlf'']"

definition clean :: "(world, unit) prog" where
  "clean =
     and_then (on_fs (shutil_rmtree_ignore_errors SIM_DIR))
              (py_print [''Cleaned simulation directory.''])"

definition help_text :: string where
  "help_text =
     ''\<newline>Usage: python sim.py [command]\<newline>'' @
     ''\<newline>'' @
     ''Commands:\<newline>'' @
     ''  simulate       : Run simulation in batch mode.\<newline>'' @
     ''  simulate_gui   : Run simulation in GUI mode.\<newline>'' @
     ''  view_wave      : View the generated waveform.\<newline>'' @
     ''  clean          : Clean the simulation directory.\<newline>'' @
     ''  help           : Display this help message.\<newline>''"

definition print_help :: "(world, unit) prog" where
  "print_help = py_print [help_text]"

subsection \<open>Main execution block\<close>

text \<open>
  \<open>main tools sys_argv\<close> is the block under \<^verbatim>\<open>if __name__ == "__main__"\<close>;
  \<open>sys_argv\<close> is \<^verbatim>\<open>sys.argv\<close>, the script's name followed by the arguments.
  \<^verbatim>\<open>sys.exit(1)\<close> raises \<^verbatim>\<open>SystemExit\<close>.
\<close>

definition main :: "tools \<Rightarrow> string list \<Rightarrow> (world, unit) prog" where
  "main tools sys_argv =
     (if length sys_argv < 2 then and_then print_help (raise (SystemExit 1))
      else
        let cmd = sys_argv ! 1 in
        if cmd = ''simulate'' then simulate tools
        else if cmd = ''simulate_gui'' then simulate_gui tools
        else if cmd = ''view_wave'' then view_wave tools
        else if cmd = ''clean'' then clean
        else if cmd = ''help'' then print_help
        else and_then (py_print [''Unknown command:'', cmd]) print_help)"

text \<open>
  The exit status the interpreter gives the process: zero when the block runs to its
  end, the code of \<^verbatim>\<open>SystemExit\<close>, and one for any other exception that nothing caught.
\<close>

fun exit_status :: "exn + unit \<Rightarrow> int" where
  "exit_status (Inr _) = 0"
| "exit_status (Inl (SystemExit n)) = n"
| "exit_status (Inl _) = 1"

section \<open>Observing a run\<close>

text \<open>
  How a child process ended, the file system it left, what \<open>check_call\<close> raises for a
  child process that did not exit with status zero, and the child processes asked for
  between two states of a run.
\<close>

definition status :: "outcome \<Rightarrow> int option" where
  "status out = (case out of Exited rc s \<Rightarrow> Some rc | NotStarted e \<Rightarrow> None)"

definition fs_after :: "outcome \<Rightarrow> filesystem \<Rightarrow> filesystem" where
  "fs_after out s0 = (case out of Exited rc s \<Rightarrow> s | NotStarted e \<Rightarrow> s0)"

fun failure :: "outcome \<Rightarrow> argv \<Rightarrow> exn" where
  "failure (Exited rc s) cmd = CalledProcessError rc cmd"
| "failure (NotStarted e) cmd = e"

definition issued :: "world \<Rightarrow> world \<Rightarrow> (argv \<times> int option) list" where
  "issued w w' = drop (length (calls w)) (calls w')"

text \<open>
  Concrete environments for the examples: an empty disk; the disk after the directories
  were prepared; a simulation directory with the files of an earlier run, and the same
  with a library directory that the operating system refuses to remove; a project as
  checked out, with its sources and neither of the two directories; a disk on which
  \<^verbatim>\<open>../sim\<close> is a regular file; tools that succeed, and tools of which \<^verbatim>\<open>vlib\<close> or
  \<^verbatim>\<open>vlog\<close> fails.
\<close>

definition fs_empty :: filesystem where
  "fs_empty = \<lparr>nodes = (\<lambda>p. None), denied = []\<rparr>"

definition fs_prepared :: filesystem where
  "fs_prepared =
     \<lparr>nodes = (\<lambda>p. None)(''..'' \<mapsto> Dir, ''../quartus'' \<mapsto> Dir, ''../sim'' \<mapsto> Dir),
      denied = []\<rparr>"

definition fs_sim :: filesystem where
  "fs_sim = \<lparr>nodes = [''../sim'' \<mapsto> Dir, ''../sim/work'' \<mapsto> Dir,
                        ''../sim/work/_info'' \<mapsto> File, ''../sim/simulation.log'' \<mapsto> File],
            denied = []\<rparr>"

definition fs_locked :: filesystem where
  "fs_locked = fs_sim\<lparr>denied := [''../sim/work'']\<rparr>"

definition fs_project :: filesystem where
  "fs_project =
     \<lparr>nodes = [''..'' \<mapsto> Dir, ''../src'' \<mapsto> Dir, ''../src/d1_design.v'' \<mapsto> File,
               ''../src/d1_test.v'' \<mapsto> File],
      denied = []\<rparr>"

definition fs_sim_is_file :: filesystem where
  "fs_sim_is_file =
     \<lparr>nodes = [''..'' \<mapsto> Dir, ''../quartus'' \<mapsto> Dir, ''../sim'' \<mapsto> File], denied = []\<rparr>"

definition world0 :: world where
  "world0 = \<lparr>fsys = fs_empty, stdout = [], calls = []\<rparr>"

definition tools_ok :: tools where
  "tools_ok cmd s = Exited 0 s"

definition tools_vlib_fails :: tools where
  "tools_vlib_fails cmd s = (if hd cmd = ''vlib'' then Exited 1 s else Exited 0 s)"

definition tools_vlog_fails :: tools where
  "tools_vlog_fails cmd s = (if hd cmd = ''vlog'' then Exited 2 s else Exited 0 s)"

section \<open>Basic facts\<close>

text \<open>
  \<open>run_command\<close> in one step: it prints the command line, asks for the child process,
  records it, and returns normally exactly when the child exited with status zero.
\<close>

lemma run_command_eq:
  "run_command tools cmd w =
     (if status (tools cmd (fsys w)) = Some 0 then Inr ()
      else Inl (failure (tools cmd (fsys w)) cmd),
      w\<lparr>fsys := fs_after (tools cmd (fsys w)) (fsys w),
        stdout := stdout w @ [''Running: '' @ str_join '' '' cmd],
        calls := calls w @ [(cmd, status (tools cmd (fsys w)))]\<rparr>)"
  by (simp add: run_command_def and_then_def py_print_def check_call_def status_def
      fs_after_def split: outcome.splits)

lemma log_paths_below:
  "below SIM_DIR (os_path_join SIM_DIR ''simulation.log'')"
  "below SIM_DIR (os_path_join SIM_DIR ''waveform.wlf'')"
  by (simp_all add: below_def os_path_join_def SIM_DIR_def)

lemma below_trans: "below p q \<Longrightarrow> below q r \<Longrightarrow> below p r"
  unfolding below_def by (auto simp: prefix_def)

subsection \<open>Creating directories\<close>

lemma os_mkdir_Inr:
  "os_mkdir p s = (Inr u, s') \<Longrightarrow>
     s' = s\<lparr>nodes := (nodes s)(p \<mapsto> Dir)\<rparr> \<and> nodes s p = None
     \<and> (fst (os_path_split p) \<noteq> [] \<longrightarrow> nodes s (fst (os_path_split p)) = Some Dir)"
  by (cases "nodes s (fst (os_path_split p))"; cases "the (nodes s (fst (os_path_split p)))")
     (auto simp: os_mkdir_def Let_def os_path_exists_def split: if_splits)

lemma os_mkdir_keeps:
  "os_mkdir p s = (r, s') \<Longrightarrow> nodes s q = Some n \<Longrightarrow> nodes s' q = Some n"
  by (auto simp: os_mkdir_def Let_def os_path_exists_def split: if_splits)

lemma os_mkdir_elsewhere:
  "os_mkdir p s = (r, s') \<Longrightarrow> q \<noteq> p \<Longrightarrow> nodes s' q = nodes s q"
  by (auto simp: os_mkdir_def Let_def split: if_splits)

text \<open>\<open>os_makedirs\<close> only adds entries: what was there stays as it was.\<close>

lemma os_makedirs_keeps:
  "os_makedirs name s = (r, s') \<Longrightarrow> nodes s q = Some n \<Longrightarrow> nodes s' q = Some n"
proof (induction name s arbitrary: r s' rule: os_makedirs.induct)
  case (1 name s)
  obtain head0 tail0 where sp: "os_path_split name = (head0, tail0)"
    by (cases "os_path_split name")
  obtain head tail where ht:
    "(if tail0 = [] then os_path_split head0 else (head0, tail0)) = (head, tail)"
    by (cases "if tail0 = [] then os_path_split head0 else (head0, tail0)")
  show ?case
  proof (cases "head \<noteq> [] \<and> tail \<noteq> [] \<and> \<not> os_path_exists s head")
    case False
    with "1.prems" sp ht have "os_mkdir name s = (r, s')"
      by (subst (asm) os_makedirs.simps) (simp split: if_splits)
    then show ?thesis using "1.prems"(2) by (rule os_mkdir_keeps)
  next
    case True
    obtain r1 s1 where rec: "os_makedirs head s = (r1, s1)"
      by (cases "os_makedirs head s")
    have k1: "nodes s1 q = Some n"
      using "1.IH" [OF sp [symmetric] ht [symmetric] True rec "1.prems"(2)] .
    from "1.prems"(1) sp ht True rec
    have "(r, s') = (r1, s1) \<or> (r, s') = (Inr (), s1) \<or> os_mkdir name s1 = (r, s')"
      by (subst (asm) os_makedirs.simps) (auto split: sum.splits exn.splits if_splits)
    with k1 show ?thesis by (auto dest: os_mkdir_keeps)
  qed
qed

text \<open>
  When \<open>os_makedirs\<close> returns, the directory is there, and so is its parent.
\<close>

lemma os_makedirs_Inr:
  assumes "os_path_split name = (h, t)" and "t \<noteq> []" and "t \<noteq> ''.''"
    and "os_makedirs name s = (Inr u, s')"
  shows "nodes s' name = Some Dir \<and> (h \<noteq> [] \<longrightarrow> nodes s' h = Some Dir)"
proof -
  from assms have "\<exists>s1. os_mkdir name s1 = (Inr u, s')"
    by (subst (asm) os_makedirs.simps) (auto split: sum.splits exn.splits if_splits prod.splits)
  then obtain s1 where "os_mkdir name s1 = (Inr u, s')" ..
  from os_mkdir_Inr [OF this] assms(1) show ?thesis by auto
qed

lemma split_quartus: "os_path_split ''../quartus'' = (''..'', ''quartus'')"
  by (simp add: os_path_split_def)

lemma split_sim: "os_path_split SIM_DIR = (''..'', ''sim'')"
  by (simp add: os_path_split_def SIM_DIR_def)

lemma os_makedirs_dotdot: "os_makedirs ''..'' s = os_mkdir ''..'' s"
  by (subst os_makedirs.simps) (simp add: os_path_split_def)

lemma os_makedirs_elsewhere:
  assumes "os_path_split name = (''..'', t)" and "t \<noteq> []"
    and "os_makedirs name s = (r, s')" and "q \<noteq> ''..''" and "q \<noteq> name"
  shows "nodes s' q = nodes s q"
proof (cases "os_path_exists s ''..''")
  case True
  with assms(1-3) have "os_mkdir name s = (r, s')"
    by (subst (asm) os_makedirs.simps) simp
  then show ?thesis using assms(5) by (rule os_mkdir_elsewhere)
next
  case False
  obtain r1 s1 where m1: "os_mkdir ''..'' s = (r1, s1)" by (cases "os_mkdir ''..'' s")
  have e1: "nodes s1 q = nodes s q" using m1 assms(4) by (rule os_mkdir_elsewhere)
  from assms(1-3) False m1
  have "(r, s') = (r1, s1) \<or> (r, s') = (Inr (), s1) \<or> os_mkdir name s1 = (r, s')"
    by (subst (asm) os_makedirs.simps)
       (auto simp: os_makedirs_dotdot split: sum.splits exn.splits if_splits)
  then show ?thesis
    using e1 assms(5) by (auto dest: os_mkdir_elsewhere)
qed

text \<open>
  A directory directly under \<^verbatim>\<open>..\<close> that is absent is created, together with
  \<^verbatim>\<open>..\<close> when that is absent too, whenever nothing stands in the way.
\<close>

lemma os_makedirs_under_dotdot:
  assumes "os_path_split name = (''..'', t)" and "t \<noteq> []" and "t \<noteq> ''.''"
    and "nodes s name = None" and "nodes s ''..'' \<noteq> Some File"
    and "nodes s ''..'' = None \<longrightarrow> ''..'' \<notin> set (denied s)" and "name \<notin> set (denied s)"
  shows "os_makedirs name s =
           (Inr (), s\<lparr>nodes := (if nodes s ''..'' = None then (nodes s)(''..'' \<mapsto> Dir)
                                  else nodes s)(name \<mapsto> Dir)\<rparr>)"
proof -
  have ne: "name \<noteq> ''..''" "name \<noteq> []"
    using assms(1,2) by (auto simp: os_path_split_def)
  have par: "fst (os_path_split name) = ''..''" using assms(1) by simp
  show ?thesis
  proof (cases "nodes s ''..''")
    case None
    then have "os_mkdir ''..'' s = (Inr (), s\<lparr>nodes := (nodes s)(''..'' \<mapsto> Dir)\<rparr>)"
      using assms(6) by (simp add: os_mkdir_def os_path_exists_def os_path_split_def)
    then show ?thesis
      using None assms ne par
      by (subst os_makedirs.simps)
         (simp add: os_makedirs_dotdot os_path_exists_def os_mkdir_def)
  next
    case (Some n)
    with assms(5) have "n = Dir" by (cases n) simp_all
    with Some assms ne par show ?thesis
      by (subst os_makedirs.simps) (simp add: os_path_exists_def os_mkdir_def)
  qed
qed

text \<open>
  Conversely, \<open>os_makedirs\<close> returns for such a directory only if nothing stood in
  the way.
\<close>

lemma os_makedirs_Inr_needs:
  assumes "os_path_split name = (''..'', t)" and "t \<noteq> []" and "t \<noteq> ''.''"
    and "os_makedirs name s = (Inr u, s')"
  shows "nodes s ''..'' \<noteq> Some File
         \<and> (nodes s ''..'' = None \<longrightarrow> ''..'' \<notin> set (denied s))
         \<and> name \<notin> set (denied s)"
proof (cases "os_path_exists s ''..''")
  case True
  with assms have "os_mkdir name s = (Inr u, s')"
    by (subst (asm) os_makedirs.simps) simp
  with True assms(1) show ?thesis
    by (auto simp: os_mkdir_def Let_def os_path_exists_def split: if_splits)
next
  case False
  obtain r1 s1 where m1: "os_mkdir ''..'' s = (r1, s1)" by (cases "os_mkdir ''..'' s")
  from assms False m1 have m2: "os_mkdir name s1 = (Inr u, s')"
    and r1: "r1 = Inr () \<or> (\<exists>x. r1 = Inl (FileExistsError x))"
    by (subst (asm) os_makedirs.simps,
        auto simp: os_makedirs_dotdot split: sum.splits exn.splits if_splits)+
  from m1 r1 False have d1: "''..'' \<notin> set (denied s)" and s1: "denied s1 = denied s"
    by (auto simp: os_mkdir_def Let_def os_path_exists_def os_path_split_def split: if_splits)
  from m2 s1 have "name \<notin> set (denied s)"
    by (auto simp: os_mkdir_def Let_def split: if_splits)
  with d1 False show ?thesis by (simp add: os_path_exists_def)
qed

subsection \<open>Preparing the directories\<close>

lemma ensure_dirs_only_fs:
  "calls (snd (ensure_dirs w)) = calls w \<and> stdout (snd (ensure_dirs w)) = stdout w"
  by (auto simp: ensure_dirs_def and_then_def on_fs_def return_def
      split: prod.splits sum.splits)

lemma ensure_dirs_keeps:
  "nodes (fsys w) q = Some n \<Longrightarrow> nodes (fsys (snd (ensure_dirs w))) q = Some n"
proof -
  have step: "nodes (fsys (snd (on_fs (os_makedirs p) v))) q = Some n"
    if "nodes (fsys v) q = Some n" for p v
    using that by (auto simp: on_fs_def split: prod.splits dest: os_makedirs_keeps)
  assume a: "nodes (fsys w) q = Some n"
  define w1 where "w1 = (if \<not> os_path_exists (fsys w) ''../quartus''
                         then snd (on_fs (os_makedirs ''../quartus'') w) else w)"
  have k1: "nodes (fsys w1) q = Some n"
    using a step by (simp add: w1_def)
  have "snd (ensure_dirs w) = w1
        \<or> snd (ensure_dirs w) = snd (on_fs (os_makedirs SIM_DIR) w1)"
    by (auto simp: ensure_dirs_def and_then_def return_def w1_def
        split: prod.splits sum.splits)
  with k1 step show ?thesis by auto
qed

lemma ensure_dirs_nothing_to_do:
  "os_path_exists (fsys w) ''../quartus'' \<Longrightarrow> os_path_exists (fsys w) SIM_DIR \<Longrightarrow>
     ensure_dirs w = (Inr (), w)"
  by (simp add: ensure_dirs_def and_then_def return_def)

text \<open>The two statements of \<open>ensure_dirs\<close>, one after the other.\<close>

lemma ensure_dirs_steps:
  assumes "fst (ensure_dirs w) = Inr ()"
  obtains w1 where
    "if os_path_exists (fsys w) ''../quartus'' then w1 = w
     else \<exists>s1. os_makedirs ''../quartus'' (fsys w) = (Inr (), s1) \<and> w1 = w\<lparr>fsys := s1\<rparr>"
    "if os_path_exists (fsys w1) SIM_DIR then snd (ensure_dirs w) = w1
     else \<exists>s2. os_makedirs SIM_DIR (fsys w1) = (Inr (), s2) \<and> snd (ensure_dirs w) = w1\<lparr>fsys := s2\<rparr>"
  using assms
  by (auto simp: ensure_dirs_def and_then_def on_fs_def return_def
      split: prod.splits sum.splits if_splits)

lemma ensure_dirs_quartus:
  assumes "fst (ensure_dirs w) = Inr ()"
  shows "os_path_exists (fsys (snd (ensure_dirs w))) ''../quartus''"
    and "\<not> os_path_exists (fsys w) ''../quartus'' \<Longrightarrow>
           nodes (fsys (snd (ensure_dirs w))) ''../quartus'' = Some Dir
           \<and> nodes (fsys (snd (ensure_dirs w))) ''..'' = Some Dir"
proof -
  from assms obtain w1 where
    s1: "if os_path_exists (fsys w) ''../quartus'' then w1 = w
     else \<exists>s1. os_makedirs ''../quartus'' (fsys w) = (Inr (), s1) \<and> w1 = w\<lparr>fsys := s1\<rparr>"
    and s2: "if os_path_exists (fsys w1) SIM_DIR then snd (ensure_dirs w) = w1
     else \<exists>s2. os_makedirs SIM_DIR (fsys w1) = (Inr (), s2) \<and> snd (ensure_dirs w) = w1\<lparr>fsys := s2\<rparr>"
    by (rule ensure_dirs_steps)
  have k2: "\<And>q n. nodes (fsys w1) q = Some n \<Longrightarrow> nodes (fsys (snd (ensure_dirs w))) q = Some n"
    using s2 by (auto split: if_splits dest: os_makedirs_keeps)
  have a1: "os_path_exists (fsys w1) ''../quartus''"
    using s1 os_makedirs_Inr [OF split_quartus]
    by (auto simp: os_path_exists_def split: if_splits)
  then show "os_path_exists (fsys (snd (ensure_dirs w))) ''../quartus''"
    using k2 by (auto simp: os_path_exists_def)
  assume "\<not> os_path_exists (fsys w) ''../quartus''"
  then have "nodes (fsys w1) ''../quartus'' = Some Dir \<and> nodes (fsys w1) ''..'' = Some Dir"
    using s1 os_makedirs_Inr [OF split_quartus]
    by (auto split: if_splits)
  then show "nodes (fsys (snd (ensure_dirs w))) ''../quartus'' = Some Dir
           \<and> nodes (fsys (snd (ensure_dirs w))) ''..'' = Some Dir"
    using k2 by simp
qed

lemma ensure_dirs_sim:
  assumes "fst (ensure_dirs w) = Inr ()"
  shows "os_path_exists (fsys (snd (ensure_dirs w))) SIM_DIR"
    and "\<not> os_path_exists (fsys w) SIM_DIR \<Longrightarrow>
           nodes (fsys (snd (ensure_dirs w))) SIM_DIR = Some Dir
           \<and> nodes (fsys (snd (ensure_dirs w))) ''..'' = Some Dir"
proof -
  from assms obtain w1 where
    s1: "if os_path_exists (fsys w) ''../quartus'' then w1 = w
     else \<exists>s1. os_makedirs ''../quartus'' (fsys w) = (Inr (), s1) \<and> w1 = w\<lparr>fsys := s1\<rparr>"
    and s2: "if os_path_exists (fsys w1) SIM_DIR then snd (ensure_dirs w) = w1
     else \<exists>s2. os_makedirs SIM_DIR (fsys w1) = (Inr (), s2) \<and> snd (ensure_dirs w) = w1\<lparr>fsys := s2\<rparr>"
    by (rule ensure_dirs_steps)
  show "os_path_exists (fsys (snd (ensure_dirs w))) SIM_DIR"
    using s2 os_makedirs_Inr [OF split_sim]
    by (auto simp: os_path_exists_def split: if_splits)
  assume absent: "\<not> os_path_exists (fsys w) SIM_DIR"
  have "nodes (fsys w1) SIM_DIR = nodes (fsys w) SIM_DIR"
    using s1 os_makedirs_elsewhere [OF split_quartus, of "fsys w" _ _ SIM_DIR]
    by (auto simp: SIM_DIR_def split: if_splits)
  with absent have "\<not> os_path_exists (fsys w1) SIM_DIR"
    by (simp add: os_path_exists_def)
  then show "nodes (fsys (snd (ensure_dirs w))) SIM_DIR = Some Dir
           \<and> nodes (fsys (snd (ensure_dirs w))) ''..'' = Some Dir"
    using s2 os_makedirs_Inr [OF split_sim]
    by (auto split: if_splits)
qed

lemma ensure_dirs_elsewhere:
  assumes "q \<noteq> ''..''" and "q \<noteq> ''../quartus''" and "q \<noteq> SIM_DIR"
  shows "nodes (fsys (snd (ensure_dirs w))) q = nodes (fsys w) q"
proof -
  have step1: "nodes (fsys (snd (on_fs (os_makedirs ''../quartus'') v))) q = nodes (fsys v) q" for v
    using assms os_makedirs_elsewhere [OF split_quartus]
    by (auto simp: on_fs_def split: prod.splits)
  have step2: "nodes (fsys (snd (on_fs (os_makedirs SIM_DIR) v))) q = nodes (fsys v) q" for v
    using assms os_makedirs_elsewhere [OF split_sim]
    by (auto simp: on_fs_def split: prod.splits)
  define w1 where "w1 = (if \<not> os_path_exists (fsys w) ''../quartus''
                         then snd (on_fs (os_makedirs ''../quartus'') w) else w)"
  have k1: "nodes (fsys w1) q = nodes (fsys w) q"
    using step1 by (simp add: w1_def)
  have "snd (ensure_dirs w) = w1
        \<or> snd (ensure_dirs w) = snd (on_fs (os_makedirs SIM_DIR) w1)"
    by (auto simp: ensure_dirs_def and_then_def return_def w1_def
        split: prod.splits sum.splits)
  with k1 step2 show ?thesis by auto
qed

text \<open>
  \<open>ensure_dirs\<close> returns exactly when each of the two paths either exists or can be
  created: the parent \<^verbatim>\<open>..\<close> is not a regular file, the operating system allows
  the creation of the path, and that of \<^verbatim>\<open>..\<close> where it is missing.
\<close>

lemma ensure_dirs_returns:
  assumes "os_path_exists (fsys w) ''../quartus''
           \<or> (nodes (fsys w) ''..'' \<noteq> Some File
              \<and> (nodes (fsys w) ''..'' = None \<longrightarrow> ''..'' \<notin> set (denied (fsys w)))
              \<and> ''../quartus'' \<notin> set (denied (fsys w)))"
    and "os_path_exists (fsys w) SIM_DIR
           \<or> (nodes (fsys w) ''..'' \<noteq> Some File
              \<and> (nodes (fsys w) ''..'' = None \<longrightarrow> ''..'' \<notin> set (denied (fsys w)))
              \<and> SIM_DIR \<notin> set (denied (fsys w)))"
  shows "fst (ensure_dirs w) = Inr ()"
proof -
  define w1 where "w1 = (if \<not> os_path_exists (fsys w) ''../quartus''
    then w\<lparr>fsys := (fsys w)\<lparr>nodes := (if nodes (fsys w) ''..'' = None
                                       then (nodes (fsys w))(''..'' \<mapsto> Dir)
                                       else nodes (fsys w))(''../quartus'' \<mapsto> Dir)\<rparr>\<rparr>
    else w)"
  have s1: "(if \<not> os_path_exists (fsys w) ''../quartus''
             then on_fs (os_makedirs ''../quartus'') w else return () w) = (Inr (), w1)"
  proof (cases "os_path_exists (fsys w) ''../quartus''")
    case True
    then show ?thesis by (simp add: w1_def return_def)
  next
    case False
    with assms(1) have mk: "nodes (fsys w) ''../quartus'' = None"
      "nodes (fsys w) ''..'' \<noteq> Some File"
      "nodes (fsys w) ''..'' = None \<longrightarrow> ''..'' \<notin> set (denied (fsys w))"
      "''../quartus'' \<notin> set (denied (fsys w))"
      by (simp_all add: os_path_exists_def)
    from os_makedirs_under_dotdot [OF split_quartus _ _ mk] False show ?thesis
      by (simp add: w1_def on_fs_def)
  qed
  have p1: "os_path_exists (fsys w1) SIM_DIR
           \<or> (nodes (fsys w1) ''..'' \<noteq> Some File
              \<and> (nodes (fsys w1) ''..'' = None \<longrightarrow> ''..'' \<notin> set (denied (fsys w1)))
              \<and> SIM_DIR \<notin> set (denied (fsys w1)))"
    using assms(2) by (auto simp: w1_def os_path_exists_def SIM_DIR_def)
  have s2: "fst (if \<not> os_path_exists (fsys w1) SIM_DIR
             then on_fs (os_makedirs SIM_DIR) w1 else return () w1) = Inr ()"
  proof (cases "os_path_exists (fsys w1) SIM_DIR")
    case True
    then show ?thesis by (simp add: return_def)
  next
    case False
    with p1 have mk: "nodes (fsys w1) SIM_DIR = None"
      "nodes (fsys w1) ''..'' \<noteq> Some File"
      "nodes (fsys w1) ''..'' = None \<longrightarrow> ''..'' \<notin> set (denied (fsys w1))"
      "SIM_DIR \<notin> set (denied (fsys w1))"
      by (simp_all add: os_path_exists_def)
    from os_makedirs_under_dotdot [OF split_sim _ _ mk] False show ?thesis
      by (simp add: on_fs_def)
  qed
  show ?thesis
    using s1 s2 by (simp add: ensure_dirs_def and_then_def)
qed

lemma ensure_dirs_Inr_needs:
  assumes "fst (ensure_dirs w) = Inr ()"
  shows "os_path_exists (fsys w) ''../quartus''
           \<or> (nodes (fsys w) ''..'' \<noteq> Some File
              \<and> (nodes (fsys w) ''..'' = None \<longrightarrow> ''..'' \<notin> set (denied (fsys w)))
              \<and> ''../quartus'' \<notin> set (denied (fsys w)))"
    and "os_path_exists (fsys w) SIM_DIR
           \<or> (nodes (fsys w) ''..'' \<noteq> Some File
              \<and> (nodes (fsys w) ''..'' = None \<longrightarrow> ''..'' \<notin> set (denied (fsys w)))
              \<and> SIM_DIR \<notin> set (denied (fsys w)))"
proof -
  from assms obtain w1 where
    s1: "if os_path_exists (fsys w) ''../quartus'' then w1 = w
     else \<exists>s1. os_makedirs ''../quartus'' (fsys w) = (Inr (), s1) \<and> w1 = w\<lparr>fsys := s1\<rparr>"
    and s2: "if os_path_exists (fsys w1) SIM_DIR then snd (ensure_dirs w) = w1
     else \<exists>s2. os_makedirs SIM_DIR (fsys w1) = (Inr (), s2) \<and> snd (ensure_dirs w) = w1\<lparr>fsys := s2\<rparr>"
    by (rule ensure_dirs_steps)
  show q: "os_path_exists (fsys w) ''../quartus''
           \<or> (nodes (fsys w) ''..'' \<noteq> Some File
              \<and> (nodes (fsys w) ''..'' = None \<longrightarrow> ''..'' \<notin> set (denied (fsys w)))
              \<and> ''../quartus'' \<notin> set (denied (fsys w)))"
    using s1 os_makedirs_Inr_needs [OF split_quartus]
    by (auto split: if_splits)
  show "os_path_exists (fsys w) SIM_DIR
           \<or> (nodes (fsys w) ''..'' \<noteq> Some File
              \<and> (nodes (fsys w) ''..'' = None \<longrightarrow> ''..'' \<notin> set (denied (fsys w)))
              \<and> SIM_DIR \<notin> set (denied (fsys w)))"
  proof (cases "os_path_exists (fsys w) SIM_DIR")
    case True
    then show ?thesis by simp
  next
    case False
    have same: "nodes (fsys w1) SIM_DIR = nodes (fsys w) SIM_DIR"
      using s1 os_makedirs_elsewhere [OF split_quartus, of "fsys w" _ _ SIM_DIR]
      by (auto simp: SIM_DIR_def split: if_splits)
    with False have "\<not> os_path_exists (fsys w1) SIM_DIR" by (simp add: os_path_exists_def)
    with s2 obtain s2' where m: "os_makedirs SIM_DIR (fsys w1) = (Inr (), s2')" by auto
    note n = os_makedirs_Inr_needs [OF split_sim _ _ m]
    show ?thesis
    proof (cases "os_path_exists (fsys w) ''../quartus''")
      case True
      with s1 have "w1 = w" by simp
      with n show ?thesis by simp
    next
      case False
      with q have mk: "nodes (fsys w) ''..'' \<noteq> Some File"
        "nodes (fsys w) ''..'' = None \<longrightarrow> ''..'' \<notin> set (denied (fsys w))"
        "''../quartus'' \<notin> set (denied (fsys w))" by simp_all
      from False s1 obtain s1' where
        m1: "os_makedirs ''../quartus'' (fsys w) = (Inr (), s1')" and w1: "w1 = w\<lparr>fsys := s1'\<rparr>"
        by auto
      from False have "nodes (fsys w) ''../quartus'' = None" by (simp add: os_path_exists_def)
      from os_makedirs_under_dotdot [OF split_quartus _ _ this mk] m1
      have "denied s1' = denied (fsys w)" by auto
      with n w1 mk show ?thesis by simp
    qed
  qed
qed

lemma ensure_dirs_world0: "ensure_dirs world0 = (Inr (), world0\<lparr>fsys := fs_prepared\<rparr>)"
  by (simp add: ensure_dirs_def and_then_def on_fs_def return_def world0_def fs_empty_def
      fs_prepared_def os_path_exists_def SIM_DIR_def os_makedirs_dotdot os_mkdir_def
      os_makedirs.simps [of "''../quartus''"] os_makedirs.simps [of "''../sim''"]
      os_path_split_def)

subsection \<open>Three commands in a row\<close>

text \<open>
  The shape that \<open>simulate\<close> and \<open>simulate_gui\<close> share: prepare the directories,
  then three commands, each run only if everything before it succeeded.
\<close>

lemma three_commands_issued:
  assumes "w0 = snd (ensure_dirs w)"
    and "o1 = tools c1 (fsys w0)" and "o2 = tools c2 (fs_after o1 (fsys w0))"
    and "o3 = tools c3 (fs_after o2 (fs_after o1 (fsys w0)))"
  shows "issued w (snd (and_then ensure_dirs (and_then (run_command tools c1)
            (and_then (run_command tools c2) (run_command tools c3))) w)) =
         (if fst (ensure_dirs w) \<noteq> Inr () then []
          else if status o1 \<noteq> Some 0 then [(c1, status o1)]
          else if status o2 \<noteq> Some 0 then [(c1, Some 0), (c2, status o2)]
          else [(c1, Some 0), (c2, Some 0), (c3, status o3)])"
proof -
  obtain r0 w0' where e: "ensure_dirs w = (r0, w0')" by (cases "ensure_dirs w")
  have c: "calls w0' = calls w" using ensure_dirs_only_fs [of w] e by simp
  show ?thesis
  proof (cases r0)
    case (Inl x)
    with e c show ?thesis by (simp add: and_then_def issued_def)
  next
    case (Inr u)
    with e c assms show ?thesis
      by (simp add: and_then_def issued_def run_command_eq)
  qed
qed

lemma three_commands_result:
  assumes "fst (ensure_dirs w) = Inr ()"
    and "status (tools c1 (fsys (snd (ensure_dirs w)))) = Some 0"
    and "tools c2 (fs_after (tools c1 (fsys (snd (ensure_dirs w)))) (fsys (snd (ensure_dirs w))))
           = Exited rc s"
    and "rc \<noteq> 0"
  shows "fst (and_then ensure_dirs (and_then (run_command tools c1)
            (and_then (run_command tools c2) (run_command tools c3))) w)
         = Inl (CalledProcessError rc c2)"
proof -
  obtain r0 w0' where e: "ensure_dirs w = (r0, w0')" by (cases "ensure_dirs w")
  with assms show ?thesis
    by (simp add: and_then_def run_command_eq status_def)
qed

lemma three_commands_stopped:
  assumes "length (issued w (snd (and_then ensure_dirs (and_then (run_command tools c1)
            (and_then (run_command tools c2) (run_command tools c3))) w))) < 3"
  shows "and_then ensure_dirs (and_then (run_command tools c1)
            (and_then (run_command tools c2) (run_command tools c3))) w
       = and_then ensure_dirs (and_then (run_command tools c1)
            (and_then (run_command tools c2) (run_command tools c3'))) w"
proof -
  obtain r0 w0' where e: "ensure_dirs w = (r0, w0')" by (cases "ensure_dirs w")
  have c: "calls w0' = calls w" using ensure_dirs_only_fs [of w] e by simp
  show ?thesis
  proof (cases r0)
    case (Inl x)
    with e show ?thesis by (simp add: and_then_def)
  next
    case (Inr u)
    with e c assms show ?thesis
      by (simp add: and_then_def issued_def run_command_eq split: if_splits)
  qed
qed

subsection \<open>Removing a tree\<close>

lemma not_held_inside:
  assumes "\<not> held s p" and "q = p \<or> below p q"
  shows "\<not> held s q"
proof
  assume "held s q"
  then obtain r where r: "r \<in> set (denied s)" "nodes s r \<noteq> None" "r = q \<or> below q r"
    by (auto simp: held_def list_ex_iff)
  from r(3) assms(2) have "r = p \<or> below p r"
    by (auto intro: below_trans)
  with r(1,2) assms(1) show False
    by (auto simp: held_def list_ex_iff)
qed

lemma fs_sim_facts:
  "nodes fs_sim SIM_DIR = Some Dir" "\<not> held fs_sim SIM_DIR"
  "below SIM_DIR ''../sim/simulation.log''"
  "nodes fs_sim ''../sim/simulation.log'' = Some File"
  by (simp_all add: fs_sim_def SIM_DIR_def held_def below_def)

lemma gui_command_plain:
  "list_all (\<lambda>a. a \<notin> {''-c'', ''-l'', ''-wlf'', os_path_join SIM_DIR ''simulation.log'',
                        os_path_join SIM_DIR ''waveform.wlf''}
                 \<and> \<not> sublist ''run'' a \<and> \<not> sublist ''quit'' a)
     ([''vsim''] @ VSIM_OPTIONS @ [''-do'', ''log -r /*'', TOP_MODULE, ''-work'', SIM_DIR])"
  by (simp add: VSIM_OPTIONS_def TOP_MODULE_def SIM_DIR_def os_path_join_def
      sublist_Cons_right)

section \<open>The dispatcher\<close>

text \<open>
  C4. Run without a command (\<^verbatim>\<open>sys.argv\<close> holds the script name only), the script
  prints the usage text and exits with status 1; apart from that one line of output
  the state is unchanged, so no action ran and no child process was asked for.
\<close>

theorem main_no_arguments:
  "length sys_argv < 2 \<Longrightarrow>
     main tools sys_argv w = (Inl (SystemExit 1), w\<lparr>stdout := stdout w @ [help_text]\<rparr>)
     \<and> exit_status (fst (main tools sys_argv w)) \<noteq> 0
     \<and> calls (snd (main tools sys_argv w)) = calls w
     \<and> fsys (snd (main tools sys_argv w)) = fsys w"
  by (simp add: main_def print_help_def py_print_def and_then_def raise_def)

theorem main_no_arguments_witness:
  "length [''sim.py''] < 2
   \<and> main tools_ok [''sim.py''] world0 = (Inl (SystemExit 1), world0\<lparr>stdout := [help_text]\<rparr>)
   \<and> exit_status (fst (main tools_ok [''sim.py''] world0)) = 1"
  using main_no_arguments [of "[''sim.py'']" tools_ok world0]
  by (simp add: world0_def)

text \<open>
  C5. With the command \<^verbatim>\<open>help\<close> the script prints the usage text, the same text as
  without a command, and runs to its end (exit status 0); no child process is asked
  for and the file system is unchanged.
\<close>

theorem main_help:
  "main tools (prog # ''help'' # rest) w = (Inr (), w\<lparr>stdout := stdout w @ [help_text]\<rparr>)
   \<and> stdout (snd (main tools (prog # ''help'' # rest) w)) = stdout (snd (main tools [prog] w))
   \<and> exit_status (fst (main tools (prog # ''help'' # rest) w)) = 0
   \<and> calls (snd (main tools (prog # ''help'' # rest) w)) = calls w
   \<and> fsys (snd (main tools (prog # ''help'' # rest) w)) = fsys w"
  by (simp add: main_def print_help_def py_print_def and_then_def raise_def)

text \<open>
  C3. With the unknown command \<^verbatim>\<open>bogus\<close> the script prints the unknown-command
  message and the usage text, and then runs to its end: the last branch has no
  \<^verbatim>\<open>sys.exit(1)\<close>, unlike the branch for a missing command, so the exit status is 0.
\<close>

theorem main_unknown_command_exits_zero:
  "main tools_ok [''sim.py'', ''bogus''] world0 =
     (Inr (), world0\<lparr>stdout := [''Unknown command: bogus'', help_text]\<rparr>)
   \<and> exit_status (fst (main tools_ok [''sim.py'', ''bogus''] world0)) = 0"
  by (simp add: main_def print_help_def py_print_def and_then_def world0_def)

section \<open>Preparing the directories\<close>

text \<open>
  C8, as amended. When \<open>ensure_dirs\<close> returns, \<^verbatim>\<open>../quartus\<close> and the simulation
  directory both exist as paths (\<^verbatim>\<open>os.path.exists\<close>, the test the function makes), and
  running it again changes nothing. Both are directories unless one of the paths was
  a regular file beforehand, which is left as it is. One that was absent has been
  created as a directory, together with its parent \<^verbatim>\<open>..\<close>. The function returns
  exactly when each path either exists or can be created: \<^verbatim>\<open>..\<close> is not a regular
  file, and the operating system refuses neither the path nor a missing \<^verbatim>\<open>..\<close>.
  When both paths exist already the call returns the state it was given. Entries that
  were there are kept, and no path other than the two and \<^verbatim>\<open>..\<close> is touched.
\<close>

theorem ensure_dirs_creates_and_is_idempotent:
  "(fst (ensure_dirs w) = Inr () \<longrightarrow>
      os_path_exists (fsys (snd (ensure_dirs w))) ''../quartus''
      \<and> os_path_exists (fsys (snd (ensure_dirs w))) SIM_DIR
      \<and> ensure_dirs (snd (ensure_dirs w)) = (Inr (), snd (ensure_dirs w)))
   \<and> (fst (ensure_dirs w) = Inr ()
        \<and> nodes (fsys w) ''../quartus'' \<noteq> Some File \<and> nodes (fsys w) SIM_DIR \<noteq> Some File \<longrightarrow>
        nodes (fsys (snd (ensure_dirs w))) ''../quartus'' = Some Dir
        \<and> nodes (fsys (snd (ensure_dirs w))) SIM_DIR = Some Dir)
   \<and> (fst (ensure_dirs w) = Inr () \<and> \<not> os_path_exists (fsys w) ''../quartus'' \<longrightarrow>
        nodes (fsys (snd (ensure_dirs w))) ''../quartus'' = Some Dir
        \<and> nodes (fsys (snd (ensure_dirs w))) ''..'' = Some Dir)
   \<and> (fst (ensure_dirs w) = Inr () \<and> \<not> os_path_exists (fsys w) SIM_DIR \<longrightarrow>
        nodes (fsys (snd (ensure_dirs w))) SIM_DIR = Some Dir
        \<and> nodes (fsys (snd (ensure_dirs w))) ''..'' = Some Dir)
   \<and> (fst (ensure_dirs w) = Inr ()) =
       ((os_path_exists (fsys w) ''../quartus''
         \<or> (nodes (fsys w) ''..'' \<noteq> Some File
            \<and> (nodes (fsys w) ''..'' = None \<longrightarrow> ''..'' \<notin> set (denied (fsys w)))
            \<and> ''../quartus'' \<notin> set (denied (fsys w))))
        \<and> (os_path_exists (fsys w) SIM_DIR
           \<or> (nodes (fsys w) ''..'' \<noteq> Some File
              \<and> (nodes (fsys w) ''..'' = None \<longrightarrow> ''..'' \<notin> set (denied (fsys w)))
              \<and> SIM_DIR \<notin> set (denied (fsys w)))))
   \<and> (os_path_exists (fsys w) ''../quartus'' \<and> os_path_exists (fsys w) SIM_DIR \<longrightarrow>
        ensure_dirs w = (Inr (), w))
   \<and> (\<forall>q n. nodes (fsys w) q = Some n \<longrightarrow> nodes (fsys (snd (ensure_dirs w))) q = Some n)
   \<and> (\<forall>q. q \<noteq> ''..'' \<and> q \<noteq> ''../quartus'' \<and> q \<noteq> SIM_DIR \<longrightarrow>
          nodes (fsys (snd (ensure_dirs w))) q = nodes (fsys w) q)"
proof -
  have dirs: "nodes (fsys (snd (ensure_dirs w))) p = Some Dir"
    if "fst (ensure_dirs w) = Inr ()" and "nodes (fsys w) p \<noteq> Some File"
      and "p = ''../quartus'' \<or> p = SIM_DIR" for p
  proof (cases "nodes (fsys w) p")
    case None
    then show ?thesis
      using that ensure_dirs_quartus(2) [of w] ensure_dirs_sim(2) [of w]
      by (auto simp: os_path_exists_def)
  next
    case (Some n)
    with that(2) have "nodes (fsys w) p = Some Dir" by (cases n) simp_all
    then show ?thesis by (rule ensure_dirs_keeps)
  qed
  have ret: "(fst (ensure_dirs w) = Inr ()) =
       ((os_path_exists (fsys w) ''../quartus''
         \<or> (nodes (fsys w) ''..'' \<noteq> Some File
            \<and> (nodes (fsys w) ''..'' = None \<longrightarrow> ''..'' \<notin> set (denied (fsys w)))
            \<and> ''../quartus'' \<notin> set (denied (fsys w))))
        \<and> (os_path_exists (fsys w) SIM_DIR
           \<or> (nodes (fsys w) ''..'' \<noteq> Some File
              \<and> (nodes (fsys w) ''..'' = None \<longrightarrow> ''..'' \<notin> set (denied (fsys w)))
              \<and> SIM_DIR \<notin> set (denied (fsys w)))))"
    (is "?L = ?R")
  proof
    assume ?L
    from ensure_dirs_Inr_needs(1) [OF this] ensure_dirs_Inr_needs(2) [OF this]
    show ?R by (rule conjI)
  next
    assume ?R
    then show ?L by (intro ensure_dirs_returns) simp_all
  qed
  have rest: "(fst (ensure_dirs w) = Inr () \<longrightarrow>
      os_path_exists (fsys (snd (ensure_dirs w))) ''../quartus''
      \<and> os_path_exists (fsys (snd (ensure_dirs w))) SIM_DIR
      \<and> ensure_dirs (snd (ensure_dirs w)) = (Inr (), snd (ensure_dirs w)))
   \<and> (fst (ensure_dirs w) = Inr ()
        \<and> nodes (fsys w) ''../quartus'' \<noteq> Some File \<and> nodes (fsys w) SIM_DIR \<noteq> Some File \<longrightarrow>
        nodes (fsys (snd (ensure_dirs w))) ''../quartus'' = Some Dir
        \<and> nodes (fsys (snd (ensure_dirs w))) SIM_DIR = Some Dir)
   \<and> (fst (ensure_dirs w) = Inr () \<and> \<not> os_path_exists (fsys w) ''../quartus'' \<longrightarrow>
        nodes (fsys (snd (ensure_dirs w))) ''../quartus'' = Some Dir
        \<and> nodes (fsys (snd (ensure_dirs w))) ''..'' = Some Dir)
   \<and> (fst (ensure_dirs w) = Inr () \<and> \<not> os_path_exists (fsys w) SIM_DIR \<longrightarrow>
        nodes (fsys (snd (ensure_dirs w))) SIM_DIR = Some Dir
        \<and> nodes (fsys (snd (ensure_dirs w))) ''..'' = Some Dir)
   \<and> (os_path_exists (fsys w) ''../quartus'' \<and> os_path_exists (fsys w) SIM_DIR \<longrightarrow>
        ensure_dirs w = (Inr (), w))
   \<and> (\<forall>q n. nodes (fsys w) q = Some n \<longrightarrow> nodes (fsys (snd (ensure_dirs w))) q = Some n)
   \<and> (\<forall>q. q \<noteq> ''..'' \<and> q \<noteq> ''../quartus'' \<and> q \<noteq> SIM_DIR \<longrightarrow>
          nodes (fsys (snd (ensure_dirs w))) q = nodes (fsys w) q)"
    using ensure_dirs_quartus [of w] ensure_dirs_sim [of w] ensure_dirs_nothing_to_do
      ensure_dirs_keeps [of w] ensure_dirs_elsewhere [of _ w] dirs
    by blast
  from ret rest show ?thesis by blast
qed

theorem ensure_dirs_creates_and_is_idempotent_witness:
  "nodes (fsys (world0\<lparr>fsys := fs_project\<rparr>)) ''..'' = Some Dir
   \<and> denied (fsys (world0\<lparr>fsys := fs_project\<rparr>)) = []
   \<and> nodes (fsys (world0\<lparr>fsys := fs_project\<rparr>)) ''../quartus'' = None
   \<and> nodes (fsys (world0\<lparr>fsys := fs_project\<rparr>)) SIM_DIR = None
   \<and> fst (ensure_dirs (world0\<lparr>fsys := fs_project\<rparr>)) = Inr ()
   \<and> nodes (fsys (snd (ensure_dirs (world0\<lparr>fsys := fs_project\<rparr>)))) ''../quartus'' = Some Dir
   \<and> nodes (fsys (snd (ensure_dirs (world0\<lparr>fsys := fs_project\<rparr>)))) SIM_DIR = Some Dir
   \<and> nodes (fsys (snd (ensure_dirs (world0\<lparr>fsys := fs_project\<rparr>)))) ''..'' = Some Dir
   \<and> nodes (fsys (snd (ensure_dirs (world0\<lparr>fsys := fs_project\<rparr>)))) ''../src/d1_test.v'' = Some File
   \<and> nodes (fsys (snd (ensure_dirs (world0\<lparr>fsys := fs_project\<rparr>)))) ''../other'' = None
   \<and> ensure_dirs (snd (ensure_dirs (world0\<lparr>fsys := fs_project\<rparr>)))
       = (Inr (), snd (ensure_dirs (world0\<lparr>fsys := fs_project\<rparr>)))
   \<and> os_path_exists (fsys (world0\<lparr>fsys := fs_prepared\<rparr>)) ''../quartus''
   \<and> os_path_exists (fsys (world0\<lparr>fsys := fs_prepared\<rparr>)) SIM_DIR
   \<and> ensure_dirs (world0\<lparr>fsys := fs_prepared\<rparr>) = (Inr (), world0\<lparr>fsys := fs_prepared\<rparr>)"
proof -
  let ?w = "world0\<lparr>fsys := fs_project\<rparr>"
  have pre: "nodes (fsys ?w) ''..'' = Some Dir" "denied (fsys ?w) = []"
    "nodes (fsys ?w) ''../quartus'' = None" "nodes (fsys ?w) SIM_DIR = None"
    "nodes (fsys ?w) ''../src/d1_test.v'' = Some File" "nodes (fsys ?w) ''../other'' = None"
    by (simp_all add: fs_project_def SIM_DIR_def)
  have ne: "''../other'' \<noteq> ''..''" "''../other'' \<noteq> ''../quartus''" "''../other'' \<noteq> SIM_DIR"
    by (simp_all add: SIM_DIR_def)
  note t = ensure_dirs_creates_and_is_idempotent [of ?w]
  have ok: "fst (ensure_dirs ?w) = Inr ()"
    using t pre by simp
  have post: "nodes (fsys (snd (ensure_dirs ?w))) ''../quartus'' = Some Dir"
    "nodes (fsys (snd (ensure_dirs ?w))) SIM_DIR = Some Dir"
    "nodes (fsys (snd (ensure_dirs ?w))) ''..'' = Some Dir"
    "nodes (fsys (snd (ensure_dirs ?w))) ''../src/d1_test.v'' = Some File"
    "ensure_dirs (snd (ensure_dirs ?w)) = (Inr (), snd (ensure_dirs ?w))"
    using t ok pre by (simp_all add: os_path_exists_def)
  have other: "nodes (fsys (snd (ensure_dirs ?w))) ''../other'' = None"
    using t ne pre(6) by metis
  have ready: "os_path_exists (fsys (world0\<lparr>fsys := fs_prepared\<rparr>)) ''../quartus''"
    "os_path_exists (fsys (world0\<lparr>fsys := fs_prepared\<rparr>)) SIM_DIR"
    by (simp_all add: os_path_exists_def fs_prepared_def SIM_DIR_def)
  have same: "ensure_dirs (world0\<lparr>fsys := fs_prepared\<rparr>) = (Inr (), world0\<lparr>fsys := fs_prepared\<rparr>)"
    using ensure_dirs_creates_and_is_idempotent [of "world0\<lparr>fsys := fs_prepared\<rparr>"] ready
    by blast
  from pre ok post other ready same show ?thesis by simp
qed

text \<open>
  C8 as stated fails: with a regular file at \<^verbatim>\<open>../sim\<close>, \<open>ensure_dirs\<close> returns
  and there is still no simulation directory, only the file.
\<close>

theorem ensure_dirs_leaves_regular_file:
  "fst (ensure_dirs (world0\<lparr>fsys := fs_sim_is_file\<rparr>)) = Inr ()
   \<and> nodes (fsys (snd (ensure_dirs (world0\<lparr>fsys := fs_sim_is_file\<rparr>)))) SIM_DIR = Some File"
  by (simp add: ensure_dirs_def and_then_def return_def os_path_exists_def fs_sim_is_file_def
      SIM_DIR_def)

section \<open>Batch simulation\<close>

text \<open>
  C1, as amended. With the command \<^verbatim>\<open>simulate\<close>, when the directories could be
  prepared and \<^verbatim>\<open>vlib\<close> and \<^verbatim>\<open>vlog\<close> both exit with status zero, exactly three child
  processes are asked for, in this order: \<^verbatim>\<open>vlib\<close> on the simulation directory;
  \<^verbatim>\<open>vlog\<close> with the source files in the order of \<open>VERILOG_FILES\<close>; \<^verbatim>\<open>vsim\<close> with
  the options, \<^verbatim>\<open>-c\<close>, the batch \<^verbatim>\<open>-do\<close> script, and a log file and a waveform file
  inside the simulation directory.
\<close>

theorem simulate_three_invocations:
  assumes "fst (ensure_dirs w) = Inr ()"
    and "tools [''vlib'', SIM_DIR] (fsys (snd (ensure_dirs w))) = Exited 0 s1"
    and "tools ([''vlog'', ''-work'', SIM_DIR] @ VERILOG_FILES) s1 = Exited 0 s2"
  shows "issued w (snd (main tools (prog # ''simulate'' # rest) w)) =
           [([''vlib'', SIM_DIR], Some 0),
            ([''vlog'', ''-work'', SIM_DIR] @ VERILOG_FILES, Some 0),
            ([''vsim''] @ VSIM_OPTIONS @
             [''-c'', ''-do'', ''log -r /* ; run -all; quit'', TOP_MODULE, ''-work'', SIM_DIR,
              ''-l'', os_path_join SIM_DIR ''simulation.log'',
              ''-wlf'', os_path_join SIM_DIR ''waveform.wlf''],
             status (tools ([''vsim''] @ VSIM_OPTIONS @
               [''-c'', ''-do'', ''log -r /* ; run -all; quit'', TOP_MODULE, ''-work'', SIM_DIR,
                ''-l'', os_path_join SIM_DIR ''simulation.log'',
                ''-wlf'', os_path_join SIM_DIR ''waveform.wlf'']) s2))]
         \<and> below SIM_DIR (os_path_join SIM_DIR ''simulation.log'')
         \<and> below SIM_DIR (os_path_join SIM_DIR ''waveform.wlf'')"
proof -
  have m: "main tools (prog # ''simulate'' # rest) w = simulate tools w"
    by (simp add: main_def)
  show ?thesis
    unfolding m simulate_def
    using assms log_paths_below
    by (subst three_commands_issued [OF refl refl refl refl]) (simp add: status_def fs_after_def)
qed

theorem simulate_three_invocations_witness:
  "fst (ensure_dirs world0) = Inr ()
   \<and> tools_ok [''vlib'', SIM_DIR] (fsys (snd (ensure_dirs world0))) = Exited 0 fs_prepared
   \<and> tools_ok ([''vlog'', ''-work'', SIM_DIR] @ VERILOG_FILES) fs_prepared = Exited 0 fs_prepared
   \<and> map fst (issued world0 (snd (main tools_ok [''sim.py'', ''simulate''] world0))) =
       [[''vlib'', ''../sim''],
        [''vlog'', ''-work'', ''../sim'', ''../src/d1_design.v'', ''../src/d1_test.v''],
        [''vsim'', ''-vopt'', ''-voptargs=+acc'', ''-c'', ''-do'', ''log -r /* ; run -all; quit'',
         ''d1_test'', ''-work'', ''../sim'', ''-l'', ''../sim/simulation.log'',
         ''-wlf'', ''../sim/waveform.wlf'']]"
  using simulate_three_invocations [of world0 tools_ok fs_prepared fs_prepared "''sim.py''" "[]"]
  unfolding ensure_dirs_world0
  by (simp add: tools_ok_def SIM_DIR_def VERILOG_FILES_def SRC_DIR_def VSIM_OPTIONS_def
      TOP_MODULE_def os_path_join_def)

text \<open>
  C1 as stated fails: when \<^verbatim>\<open>vlib\<close> exits with status 1, \<^verbatim>\<open>simulate\<close> asks for one
  child process, not three.
\<close>

theorem simulate_stops_after_failed_vlib:
  "issued world0 (snd (main tools_vlib_fails [''sim.py'', ''simulate''] world0)) =
     [([''vlib'', ''../sim''], Some 1)]
   \<and> length (issued world0 (snd (main tools_vlib_fails [''sim.py'', ''simulate''] world0))) \<noteq> 3"
proof -
  have m: "main tools_vlib_fails [''sim.py'', ''simulate''] world0 = simulate tools_vlib_fails world0"
    by (simp add: main_def)
  show ?thesis
    unfolding m simulate_def
    by (subst three_commands_issued [OF refl refl refl refl],
        subst three_commands_issued [OF refl refl refl refl])
       (simp add: ensure_dirs_world0 tools_vlib_fails_def status_def SIM_DIR_def)
qed

text \<open>
  C2. In a run of \<open>simulate\<close> whose second child process exits with a status other
  than zero, that child is the compilation, no third child process is asked for, and
  \<open>simulate\<close> raises \<^verbatim>\<open>CalledProcessError\<close> for it: the process ends with a status
  other than zero.
\<close>

theorem simulate_compile_failure:
  assumes "2 \<le> length (issued w (snd (simulate tools w)))"
    and "snd (issued w (snd (simulate tools w)) ! 1) = Some rc"
    and "rc \<noteq> 0"
  shows "issued w (snd (simulate tools w)) =
           [([''vlib'', SIM_DIR], Some 0),
            ([''vlog'', ''-work'', SIM_DIR] @ VERILOG_FILES, Some rc)]
         \<and> fst (simulate tools w) =
             Inl (CalledProcessError rc ([''vlog'', ''-work'', SIM_DIR] @ VERILOG_FILES))
         \<and> exit_status (fst (simulate tools w)) \<noteq> 0"
proof -
  define w0 where "w0 = snd (ensure_dirs w)"
  define o1 where "o1 = tools [''vlib'', SIM_DIR] (fsys w0)"
  define o2 where "o2 = tools ([''vlog'', ''-work'', SIM_DIR] @ VERILOG_FILES) (fs_after o1 (fsys w0))"
  note iss = three_commands_issued [OF w0_def o1_def o2_def refl]
  from assms have a: "fst (ensure_dirs w) = Inr ()" "status o1 = Some 0" "status o2 = Some rc"
    unfolding simulate_def iss by (auto split: if_splits)
  then obtain s where o2: "o2 = Exited rc s"
    by (cases o2) (simp_all add: status_def)
  have i: "issued w (snd (simulate tools w)) =
           [([''vlib'', SIM_DIR], Some 0),
            ([''vlog'', ''-work'', SIM_DIR] @ VERILOG_FILES, Some rc)]"
    unfolding simulate_def iss using a assms(3) by simp
  have r: "fst (simulate tools w) =
             Inl (CalledProcessError rc ([''vlog'', ''-work'', SIM_DIR] @ VERILOG_FILES))"
    unfolding simulate_def
    using a(1) a(2) o2 assms(3)
    by (intro three_commands_result [where s = s]) (simp_all add: o1_def o2_def w0_def)
  from i r show ?thesis by simp
qed

theorem simulate_compile_failure_witness:
  "2 \<le> length (issued world0 (snd (simulate tools_vlog_fails world0)))
   \<and> snd (issued world0 (snd (simulate tools_vlog_fails world0)) ! 1) = Some 2
   \<and> (2::int) \<noteq> 0
   \<and> map fst (issued world0 (snd (simulate tools_vlog_fails world0))) =
       [[''vlib'', ''../sim''],
        [''vlog'', ''-work'', ''../sim'', ''../src/d1_design.v'', ''../src/d1_test.v'']]
   \<and> exit_status (fst (simulate tools_vlog_fails world0)) = 1"
proof -
  have i: "issued world0 (snd (simulate tools_vlog_fails world0)) =
       [([''vlib'', ''../sim''], Some 0),
        ([''vlog'', ''-work'', ''../sim'', ''../src/d1_design.v'', ''../src/d1_test.v''], Some 2)]"
    unfolding simulate_def
    by (subst three_commands_issued [OF refl refl refl refl])
       (simp add: ensure_dirs_world0 tools_vlog_fails_def status_def SIM_DIR_def
         VERILOG_FILES_def SRC_DIR_def os_path_join_def fs_after_def)
  show ?thesis
    using simulate_compile_failure [of world0 tools_vlog_fails 2]
    by (simp add: i SIM_DIR_def VERILOG_FILES_def SRC_DIR_def os_path_join_def)
qed

section \<open>Interactive simulation\<close>

text \<open>
  C9. \<open>simulate_gui\<close> takes the same steps as \<open>simulate\<close> up to the simulator run:
  its first two child processes are those of \<open>simulate\<close>, with the same exit
  statuses; it reaches a third exactly when \<open>simulate\<close> does; and a run that stops
  before the third ends exactly as \<open>simulate\<close> does. The child processes it asks for
  are, in order, \<^verbatim>\<open>vlib\<close>, \<^verbatim>\<open>vlog\<close> and a \<^verbatim>\<open>vsim\<close> command that has no \<^verbatim>\<open>-c\<close>, no
  \<^verbatim>\<open>-l\<close> or \<^verbatim>\<open>-wlf\<close> and neither output path, and whose \<^verbatim>\<open>-do\<close> script is
  \<^verbatim>\<open>log -r /*\<close> alone: no argument mentions \<^verbatim>\<open>run\<close> or \<^verbatim>\<open>quit\<close>.
\<close>

theorem simulate_gui_same_steps:
  "prefix (map fst (issued w (snd (simulate_gui tools w))))
     [[''vlib'', SIM_DIR],
      [''vlog'', ''-work'', SIM_DIR] @ VERILOG_FILES,
      [''vsim''] @ VSIM_OPTIONS @ [''-do'', ''log -r /*'', TOP_MODULE, ''-work'', SIM_DIR]]
   \<and> take 2 (issued w (snd (simulate_gui tools w))) = take 2 (issued w (snd (simulate tools w)))
   \<and> (length (issued w (snd (simulate_gui tools w))) = 3)
       = (length (issued w (snd (simulate tools w))) = 3)
   \<and> (length (issued w (snd (simulate_gui tools w))) < 3 \<longrightarrow>
        simulate_gui tools w = simulate tools w)
   \<and> list_all (\<lambda>a. a \<notin> {''-c'', ''-l'', ''-wlf'', os_path_join SIM_DIR ''simulation.log'',
                          os_path_join SIM_DIR ''waveform.wlf''}
                   \<and> \<not> sublist ''run'' a \<and> \<not> sublist ''quit'' a)
       ([''vsim''] @ VSIM_OPTIONS @ [''-do'', ''log -r /*'', TOP_MODULE, ''-work'', SIM_DIR])"
proof (intro conjI impI)
  note g = three_commands_issued [OF refl refl refl refl]
  show "prefix (map fst (issued w (snd (simulate_gui tools w))))
     [[''vlib'', SIM_DIR],
      [''vlog'', ''-work'', SIM_DIR] @ VERILOG_FILES,
      [''vsim''] @ VSIM_OPTIONS @ [''-do'', ''log -r /*'', TOP_MODULE, ''-work'', SIM_DIR]]"
    unfolding simulate_gui_def g by simp
  show "take 2 (issued w (snd (simulate_gui tools w))) = take 2 (issued w (snd (simulate tools w)))"
    unfolding simulate_gui_def simulate_def g by simp
  show "(length (issued w (snd (simulate_gui tools w))) = 3)
       = (length (issued w (snd (simulate tools w))) = 3)"
    unfolding simulate_gui_def simulate_def g by simp
  show "simulate_gui tools w = simulate tools w"
    if "length (issued w (snd (simulate_gui tools w))) < 3"
    using that unfolding simulate_gui_def simulate_def by (rule three_commands_stopped)
  show "list_all (\<lambda>a. a \<notin> {''-c'', ''-l'', ''-wlf'', os_path_join SIM_DIR ''simulation.log'',
                          os_path_join SIM_DIR ''waveform.wlf''}
                   \<and> \<not> sublist ''run'' a \<and> \<not> sublist ''quit'' a)
       ([''vsim''] @ VSIM_OPTIONS @ [''-do'', ''log -r /*'', TOP_MODULE, ''-work'', SIM_DIR])"
    by (rule gui_command_plain)
qed

theorem simulate_gui_same_steps_witness:
  "length (issued world0 (snd (simulate_gui tools_vlog_fails world0))) < 3
   \<and> simulate_gui tools_vlog_fails world0 = simulate tools_vlog_fails world0
   \<and> map fst (issued world0 (snd (simulate_gui tools_ok world0))) =
       [[''vlib'', ''../sim''],
        [''vlog'', ''-work'', ''../sim'', ''../src/d1_design.v'', ''../src/d1_test.v''],
        [''vsim'', ''-vopt'', ''-voptargs=+acc'', ''-do'', ''log -r /*'', ''d1_test'',
         ''-work'', ''../sim'']]
   \<and> take 2 (map fst (issued world0 (snd (simulate tools_ok world0)))) =
       [[''vlib'', ''../sim''],
        [''vlog'', ''-work'', ''../sim'', ''../src/d1_design.v'', ''../src/d1_test.v'']]"
proof -
  have i1: "issued world0 (snd (simulate_gui tools_vlog_fails world0)) =
       [([''vlib'', ''../sim''], Some 0),
        ([''vlog'', ''-work'', ''../sim'', ''../src/d1_design.v'', ''../src/d1_test.v''], Some 2)]"
    unfolding simulate_gui_def
    by (subst three_commands_issued [OF refl refl refl refl])
       (simp add: ensure_dirs_world0 tools_vlog_fails_def status_def SIM_DIR_def
         VERILOG_FILES_def SRC_DIR_def os_path_join_def fs_after_def)
  have i2: "issued world0 (snd (simulate_gui tools_ok world0)) =
       [([''vlib'', ''../sim''], Some 0),
        ([''vlog'', ''-work'', ''../sim'', ''../src/d1_design.v'', ''../src/d1_test.v''], Some 0),
        ([''vsim'', ''-vopt'', ''-voptargs=+acc'', ''-do'', ''log -r /*'', ''d1_test'',
         ''-work'', ''../sim''], Some 0)]"
    unfolding simulate_gui_def
    by (subst three_commands_issued [OF refl refl refl refl])
       (simp add: ensure_dirs_world0 tools_ok_def status_def SIM_DIR_def
         VERILOG_FILES_def SRC_DIR_def os_path_join_def fs_after_def VSIM_OPTIONS_def
         TOP_MODULE_def)
  have a: "length (issued world0 (snd (simulate_gui tools_vlog_fails world0))) < 3"
    by (simp add: i1)
  have b: "simulate_gui tools_vlog_fails world0 = simulate tools_vlog_fails world0"
    using simulate_gui_same_steps [of world0 tools_vlog_fails] a by fast
  have c: "take 2 (issued world0 (snd (simulate tools_ok world0))) =
           take 2 (issued world0 (snd (simulate_gui tools_ok world0)))"
    using simulate_gui_same_steps [of world0 tools_ok] by fastforce
  have d: "take 2 (map fst (issued world0 (snd (simulate tools_ok world0)))) =
       [[''vlib'', ''../sim''],
        [''vlog'', ''-work'', ''../sim'', ''../src/d1_design.v'', ''../src/d1_test.v'']]"
    unfolding take_map c by (simp add: i2)
  from a b d show ?thesis by (simp add: i2)
qed

section \<open>Viewing the waveform\<close>

text \<open>
  C7. \<open>view_wave\<close> asks for exactly one child process, \<^verbatim>\<open>vsim -view\<close> on the
  waveform file, whose path lies inside the simulation directory. It prepares no
  directory: the file system afterwards is the one the child process left.
\<close>

theorem view_wave_single_invocation:
  "calls (snd (view_wave tools w)) =
     calls w @ [([''vsim'', ''-view'', os_path_join SIM_DIR ''waveform.wlf''],
                 status (tools [''vsim'', ''-view'', os_path_join SIM_DIR ''waveform.wlf''] (fsys w)))]
   \<and> below SIM_DIR (os_path_join SIM_DIR ''waveform.wlf'')
   \<and> fsys (snd (view_wave tools w)) =
       fs_after (tools [''vsim'', ''-view'', os_path_join SIM_DIR ''waveform.wlf''] (fsys w)) (fsys w)"
  by (simp add: view_wave_def run_command_eq below_def os_path_join_def SIM_DIR_def)

section \<open>Cleaning\<close>

text \<open>
  C6, as amended. When the simulation directory does not exist, \<open>clean\<close> returns
  normally, changes nothing and prints the confirmation. When it is a directory and
  the removal meets no error (nothing in it is \<open>held\<close>), \<open>clean\<close> returns normally and
  prints the confirmation,
  and afterwards neither the directory nor anything inside it exists.
\<close>

theorem clean_removes_tree:
  "(\<not> os_path_exists (fsys w) SIM_DIR \<longrightarrow>
      clean w = (Inr (), w\<lparr>stdout := stdout w @ [''Cleaned simulation directory.'']\<rparr>))
   \<and> (nodes (fsys w) SIM_DIR = Some Dir \<and> \<not> held (fsys w) SIM_DIR \<longrightarrow>
        fst (clean w) = Inr ()
        \<and> \<not> os_path_exists (fsys (snd (clean w))) SIM_DIR
        \<and> (\<forall>q. below SIM_DIR q \<longrightarrow> \<not> os_path_exists (fsys (snd (clean w))) q)
        \<and> stdout (snd (clean w)) = stdout w @ [''Cleaned simulation directory.''])"
proof (intro conjI impI)
  assume "\<not> os_path_exists (fsys w) SIM_DIR"
  then show "clean w = (Inr (), w\<lparr>stdout := stdout w @ [''Cleaned simulation directory.'']\<rparr>)"
    by (simp add: clean_def and_then_def on_fs_def shutil_rmtree_ignore_errors_def
        py_print_def os_path_exists_def)
next
  assume a: "nodes (fsys w) SIM_DIR = Some Dir \<and> \<not> held (fsys w) SIM_DIR"
  have nh: "\<And>q. q = SIM_DIR \<or> below SIM_DIR q \<Longrightarrow> \<not> held (fsys w) q"
    using a not_held_inside by blast
  show "fst (clean w) = Inr ()"
    using a by (simp add: clean_def and_then_def on_fs_def shutil_rmtree_ignore_errors_def
        py_print_def)
  show "\<not> os_path_exists (fsys (snd (clean w))) SIM_DIR"
    using a nh by (simp add: clean_def and_then_def on_fs_def shutil_rmtree_ignore_errors_def
        py_print_def os_path_exists_def)
  show "\<forall>q. below SIM_DIR q \<longrightarrow> \<not> os_path_exists (fsys (snd (clean w))) q"
    using a nh by (simp add: clean_def and_then_def on_fs_def shutil_rmtree_ignore_errors_def
        py_print_def os_path_exists_def)
  show "stdout (snd (clean w)) = stdout w @ [''Cleaned simulation directory.'']"
    using a by (simp add: clean_def and_then_def on_fs_def shutil_rmtree_ignore_errors_def
        py_print_def)
qed

theorem clean_removes_tree_witness:
  "\<not> os_path_exists (fsys world0) SIM_DIR
   \<and> clean world0 = (Inr (), world0\<lparr>stdout := [''Cleaned simulation directory.'']\<rparr>)
   \<and> nodes (fsys (world0\<lparr>fsys := fs_sim\<rparr>)) SIM_DIR = Some Dir
   \<and> \<not> held (fsys (world0\<lparr>fsys := fs_sim\<rparr>)) SIM_DIR
   \<and> os_path_exists (fsys (world0\<lparr>fsys := fs_sim\<rparr>)) ''../sim/simulation.log''
   \<and> fst (clean (world0\<lparr>fsys := fs_sim\<rparr>)) = Inr ()
   \<and> \<not> os_path_exists (fsys (snd (clean (world0\<lparr>fsys := fs_sim\<rparr>)))) SIM_DIR
   \<and> \<not> os_path_exists (fsys (snd (clean (world0\<lparr>fsys := fs_sim\<rparr>)))) ''../sim/simulation.log''"
  using clean_removes_tree [of world0] clean_removes_tree [of "world0\<lparr>fsys := fs_sim\<rparr>"]
    fs_sim_facts
  by (simp add: world0_def fs_empty_def os_path_exists_def)

text \<open>
  C6 as stated fails: the simulation directory exists, the operating system refuses
  to remove the library directory inside it, \<open>clean\<close> returns normally, and the
  simulation directory still exists.
\<close>

theorem clean_leaves_locked_directory:
  "nodes (fsys (world0\<lparr>fsys := fs_locked\<rparr>)) SIM_DIR = Some Dir
   \<and> fst (clean (world0\<lparr>fsys := fs_locked\<rparr>)) = Inr ()
   \<and> os_path_exists (fsys (snd (clean (world0\<lparr>fsys := fs_locked\<rparr>)))) SIM_DIR"
  by (simp add: clean_def and_then_def on_fs_def shutil_rmtree_ignore_errors_def
      py_print_def os_path_exists_def fs_locked_def fs_sim_def SIM_DIR_def held_def below_def
      world0_def)

text \<open>
  C10. \<open>clean\<close> never raises, whatever the state of the file system and whatever
  errors the removal meets, and the confirmation message is always printed.
\<close>

theorem clean_never_raises:
  "fst (clean w) = Inr ()
   \<and> stdout (snd (clean w)) = stdout w @ [''Cleaned simulation directory.'']
   \<and> calls (snd (clean w)) = calls w"
  by (simp add: clean_def and_then_def on_fs_def shutil_rmtree_ignore_errors_def py_print_def
      split: option.splits node.splits)

text \<open>
  An instance: the operating system refuses a removal inside the simulation
  directory, and \<open>clean\<close> returns normally all the same and prints the confirmation.
\<close>

theorem clean_never_raises_witness:
  "held (fsys (world0\<lparr>fsys := fs_locked\<rparr>)) SIM_DIR
   \<and> fst (clean (world0\<lparr>fsys := fs_locked\<rparr>)) = Inr ()
   \<and> stdout (snd (clean (world0\<lparr>fsys := fs_locked\<rparr>))) = [''Cleaned simulation directory.'']"
  using clean_never_raises [of "world0\<lparr>fsys := fs_locked\<rparr>"]
  by (simp add: held_def fs_locked_def fs_sim_def SIM_DIR_def below_def world0_def)

end
